theory Spec2Isabelle
  imports Main
begin

unbundle bit_operations_syntax

section \<open>Python strings\<close>

text \<open>
  A Python \<open>str\<close> is a sequence of Unicode code points; it is modelled as the list of
  their numbers. The strings of the model are the ones a Tk widget delivers: sequences of
  Unicode scalar values, on which \<open>str.encode()\<close> (UTF-8) never raises.
\<close>

type_synonym pystr = "nat list"

definition py :: "string \<Rightarrow> pystr" where
  "py s = map of_char s"

text \<open>\<open>str.isspace\<close> for one code point, the test \<open>str.strip()\<close> uses.\<close>

definition py_isspace :: "nat \<Rightarrow> bool" where
  "py_isspace c \<longleftrightarrow>
     (9 \<le> c \<and> c \<le> 13) \<or> (28 \<le> c \<and> c \<le> 32) \<or> c = 133 \<or> c = 160 \<or> c = 5760 \<or>
     (8192 \<le> c \<and> c \<le> 8202) \<or> c = 8232 \<or> c = 8233 \<or> c = 8239 \<or> c = 8287 \<or> c = 12288"

definition strip :: "pystr \<Rightarrow> pystr" where
  "strip s = rev (dropWhile py_isspace (rev (dropWhile py_isspace s)))"

text \<open>\<open>str(n)\<close> for an integer: decimal digits, with a minus sign below zero.\<close>

function digits :: "nat \<Rightarrow> pystr" where
  "digits n = (if n < 10 then [48 + n] else digits (n div 10) @ [48 + n mod 10])"
  by pat_completeness auto
termination
  by (relation "measure id") auto

definition str_int :: "int \<Rightarrow> pystr" where
  "str_int i = (if i < 0 then 45 # digits (nat (- i)) else digits (nat i))"

section \<open>SHA-256 and \<open>hash_password\<close>\<close>

text \<open>
  \<open>hashlib.sha256(password.encode()).hexdigest()\<close>: the UTF-8 bytes of the string, the
  SHA-256 digest of FIPS 180-4 on them, and its lower-case hexadecimal form. Bytes and 32-bit
  words are natural numbers, the wrap-around of the 32-bit addition written out.
\<close>

definition utf8_char :: "nat \<Rightarrow> nat list" where
  "utf8_char c =
     (if c < 128 then [c]
      else if c < 2048 then [192 + c div 64, 128 + c mod 64]
      else if c < 65536 then [224 + c div 4096, 128 + c div 64 mod 64, 128 + c mod 64]
      else [240 + c div 262144, 128 + c div 4096 mod 64, 128 + c div 64 mod 64, 128 + c mod 64])"

fun encode :: "pystr \<Rightarrow> nat list" where
  "encode [] = []"
| "encode (c # cs) = utf8_char c @ encode cs"

definition add32 :: "nat \<Rightarrow> nat \<Rightarrow> nat" where
  "add32 x y = (x + y) mod 4294967296"

definition rotr :: "nat \<Rightarrow> nat \<Rightarrow> nat" where
  "rotr n x = x div 2 ^ n + (x mod 2 ^ n) * 2 ^ (32 - n)"

definition shr :: "nat \<Rightarrow> nat \<Rightarrow> nat" where
  "shr n x = x div 2 ^ n"

definition not32 :: "nat \<Rightarrow> nat" where
  "not32 x = 4294967295 - x"

text \<open>The round constants, eight to a row.\<close>

definition K256 :: "nat list" where
  "K256 = concat
    [[0x428a2f98, 0x71374491, 0xb5c0fbcf, 0xe9b5dba5, 0x3956c25b, 0x59f111f1, 0x923f82a4, 0xab1c5ed5],
     [0xd807aa98, 0x12835b01, 0x243185be, 0x550c7dc3, 0x72be5d74, 0x80deb1fe, 0x9bdc06a7, 0xc19bf174],
     [0xe49b69c1, 0xefbe4786, 0x0fc19dc6, 0x240ca1cc, 0x2de92c6f, 0x4a7484aa, 0x5cb0a9dc, 0x76f988da],
     [0x983e5152, 0xa831c66d, 0xb00327c8, 0xbf597fc7, 0xc6e00bf3, 0xd5a79147, 0x06ca6351, 0x14292967],
     [0x27b70a85, 0x2e1b2138, 0x4d2c6dfc, 0x53380d13, 0x650a7354, 0x766a0abb, 0x81c2c92e, 0x92722c85],
     [0xa2bfe8a1, 0xa81a664b, 0xc24b8b70, 0xc76c51a3, 0xd192e819, 0xd6990624, 0xf40e3585, 0x106aa070],
     [0x19a4c116, 0x1e376c08, 0x2748774c, 0x34b0bcb5, 0x391c0cb3, 0x4ed8aa4a, 0x5b9cca4f, 0x682e6ff3],
     [0x748f82ee, 0x78a5636f, 0x84c87814, 0x8cc70208, 0x90befffa, 0xa4506ceb, 0xbef9a3f7, 0xc67178f2]]"

definition H0 :: "nat list" where
  "H0 = [0x6a09e667, 0xbb67ae85, 0x3c6ef372, 0xa54ff53a, 0x510e527f, 0x9b05688c, 0x1f83d9ab, 0x5be0cd19]"

definition bsig0 :: "nat \<Rightarrow> nat" where "bsig0 x = rotr 2 x XOR rotr 13 x XOR rotr 22 x"
definition bsig1 :: "nat \<Rightarrow> nat" where "bsig1 x = rotr 6 x XOR rotr 11 x XOR rotr 25 x"
definition ssig0 :: "nat \<Rightarrow> nat" where "ssig0 x = rotr 7 x XOR rotr 18 x XOR shr 3 x"
definition ssig1 :: "nat \<Rightarrow> nat" where "ssig1 x = rotr 17 x XOR rotr 19 x XOR shr 10 x"
definition ch :: "nat \<Rightarrow> nat \<Rightarrow> nat \<Rightarrow> nat" where "ch x y z = (x AND y) XOR (not32 x AND z)"
definition maj :: "nat \<Rightarrow> nat \<Rightarrow> nat \<Rightarrow> nat" where "maj x y z = (x AND y) XOR (x AND z) XOR (y AND z)"

text \<open>The message schedule, most recent word first: 16 words of the block grow to 64.\<close>

definition next_w :: "nat list \<Rightarrow> nat" where
  "next_w w = add32 (add32 (ssig1 (w ! 1)) (w ! 6)) (add32 (ssig0 (w ! 14)) (w ! 15))"

function schedule :: "nat list \<Rightarrow> nat list" where
  "schedule w = (if 64 \<le> length w then w else schedule (next_w w # w))"
  by pat_completeness auto
termination
  by (relation "measure (\<lambda>w. 64 - length w)") auto

definition shift_in :: "nat list \<Rightarrow> nat \<Rightarrow> nat \<Rightarrow> nat list" where
  "shift_in s t1 t2 = [add32 t1 t2, s ! 0, s ! 1, s ! 2, add32 (s ! 3) t1, s ! 4, s ! 5, s ! 6]"

definition round1 :: "nat list \<Rightarrow> nat \<Rightarrow> nat \<Rightarrow> nat list" where
  "round1 s k w =
     shift_in s (add32 (add32 (add32 (s ! 7) (bsig1 (s ! 4))) (ch (s ! 4) (s ! 5) (s ! 6))) (add32 k w))
                (add32 (bsig0 (s ! 0)) (maj (s ! 0) (s ! 1) (s ! 2)))"

fun rounds :: "nat list \<Rightarrow> nat list \<Rightarrow> nat list \<Rightarrow> nat list" where
  "rounds s (k # ks) (w # ws) = rounds (round1 s k w) ks ws"
| "rounds s _ _ = s"

fun be_nat :: "nat \<Rightarrow> nat list \<Rightarrow> nat" where
  "be_nat a [] = a"
| "be_nat a (b # bs) = be_nat (a * 256 + b) bs"

function words :: "nat list \<Rightarrow> nat list" where
  "words bs = (if bs = [] then [] else be_nat 0 (take 4 bs) # words (drop 4 bs))"
  by pat_completeness auto
termination
  by (relation "measure length") auto

definition compress :: "nat list \<Rightarrow> nat list \<Rightarrow> nat list" where
  "compress hs block = map2 add32 hs (rounds hs K256 (rev (schedule (rev (words block)))))"

function blocks :: "nat list \<Rightarrow> nat list \<Rightarrow> nat list" where
  "blocks hs p = (if p = [] then hs else blocks (compress hs (take 64 p)) (drop 64 p))"
  by pat_completeness auto
termination
  by (relation "measure (\<lambda>(hs, p). length p)") auto

definition be_bytes4 :: "nat \<Rightarrow> nat list" where
  "be_bytes4 n = [n div 16777216, n div 65536 mod 256, n div 256 mod 256, n mod 256]"

definition pad :: "nat list \<Rightarrow> nat list" where
  "pad m = m @ [128] @ replicate ((119 - length m mod 64) mod 64) 0
             @ be_bytes4 (8 * length m div 4294967296) @ be_bytes4 (8 * length m mod 4294967296)"

definition sha256 :: "nat list \<Rightarrow> nat list" where
  "sha256 m = concat (map be_bytes4 (blocks H0 (pad m)))"

definition hexdigit :: "nat \<Rightarrow> nat" where
  "hexdigit d = (if d < 10 then 48 + d else 87 + d)"

fun hexdigest :: "nat list \<Rightarrow> pystr" where
  "hexdigest [] = []"
| "hexdigest (b # bs) = hexdigit (b div 16) # hexdigit (b mod 16) # hexdigest bs"

declare schedule.simps [simp del] words.simps [simp del] blocks.simps [simp del] digits.simps [simp del]

definition hash_password :: "pystr \<Rightarrow> pystr" where
  "hash_password password = hexdigest (sha256 (encode password))"

section \<open>Paths (\<open>os.path\<close> on a POSIX system)\<close>

text \<open>\<open>str.rfind\<close> for one character: the last index holding it, or \<open>-1\<close>.\<close>

definition rfind :: "nat \<Rightarrow> pystr \<Rightarrow> int" where
  "rfind c p =
     (if c \<in> set p then int (length p) - 1 - int (length (takeWhile (\<lambda>x. x \<noteq> c) (rev p)))
      else - 1)"

definition os_path_basename :: "pystr \<Rightarrow> pystr" where
  "os_path_basename p = drop (nat (rfind 47 p + 1)) p"

text \<open>
  \<open>os.path.splitext\<close>: the extension starts at the last dot, when that dot comes after the
  last separator and some character between the two is not a dot.
\<close>

definition os_path_splitext :: "pystr \<Rightarrow> pystr \<times> pystr" where
  "os_path_splitext p =
     (let sepIndex = rfind 47 p; dotIndex = rfind 46 p
      in if dotIndex > sepIndex \<and>
            list_ex (\<lambda>c. c \<noteq> 46) (take (nat (dotIndex - sepIndex - 1)) (drop (nat (sepIndex + 1)) p))
         then (take (nat dotIndex) p, drop (nat dotIndex) p)
         else (p, []))"

definition os_path_join :: "pystr \<Rightarrow> pystr \<Rightarrow> pystr" where
  "os_path_join a b =
     (if b \<noteq> [] \<and> hd b = 47 then b
      else if a = [] \<or> last a = 47 then a @ b
      else a @ [47] @ b)"

text \<open>
  A path lies directly inside a folder when it is the folder, one separator and a
  non-empty file name without separator.
\<close>

definition inside_folder :: "pystr \<Rightarrow> pystr \<Rightarrow> bool" where
  "inside_folder folder p \<longleftrightarrow>
     (let pre = (if folder = [] \<or> last folder = 47 then folder else folder @ [47])
      in length pre < length p \<and> take (length pre) p = pre \<and> 47 \<notin> set (drop (length pre) p))"

section \<open>The document database\<close>

text \<open>
  A collection is the list of its documents in insertion order. An \<open>ObjectId\<close> is a
  number; \<open>insert_one\<close> gives the new document an identifier no document of the
  collection has. The database answers every call: connection failures are outside the model.
\<close>

record user_doc =
  user_id :: nat
  username :: pystr
  password :: pystr
  email :: pystr
  is_admin :: bool
  created_at :: pystr

record upload_doc =
  upload_id :: nat
  owner_id :: nat
  owner_username :: pystr
  image_path :: pystr
  caption :: pystr
  description :: pystr
  saved_at :: pystr

record database =
  users_collection :: "user_doc list"
  uploads_collection :: "upload_doc list"

definition fresh_id :: "nat list \<Rightarrow> nat" where
  "fresh_id ids = Suc (foldr max ids 0)"

definition find_one_username :: "user_doc list \<Rightarrow> pystr \<Rightarrow> user_doc option" where
  "find_one_username coll uname = find (\<lambda>d. username d = uname) coll"

definition new_user_doc ::
  "pystr \<Rightarrow> pystr \<Rightarrow> pystr \<Rightarrow> bool \<Rightarrow> pystr \<Rightarrow> database \<Rightarrow> user_doc" where
  "new_user_doc uname pw mail admin now d =
     \<lparr>user_id = fresh_id (map user_id (users_collection d)), username = uname, password = pw,
      email = mail, is_admin = admin, created_at = now\<rparr>"

definition insert_user ::
  "pystr \<Rightarrow> pystr \<Rightarrow> pystr \<Rightarrow> bool \<Rightarrow> pystr \<Rightarrow> database \<Rightarrow> database" where
  "insert_user uname pw mail admin now d =
     d\<lparr>users_collection := users_collection d @ [new_user_doc uname pw mail admin now d]\<rparr>"

definition create_admin_if_not_exists :: "pystr \<Rightarrow> database \<Rightarrow> database" where
  "create_admin_if_not_exists now d =
     (if find_one_username (users_collection d) (py ''admin'') = None
      then insert_user (py ''admin'') (hash_password (py ''123456789'')) (py ''admin@local'') True now d
      else d)"

text \<open>\<open>str\<close> of an \<open>ObjectId\<close>: 24 hexadecimal digits.\<close>

function hex_digits :: "nat \<Rightarrow> pystr" where
  "hex_digits n = (if n < 16 then [hexdigit n] else hex_digits (n div 16) @ [hexdigit (n mod 16)])"
  by pat_completeness auto
termination
  by (relation "measure id") auto

declare hex_digits.simps [simp del]

definition str_oid :: "nat \<Rightarrow> pystr" where
  "str_oid n = replicate (24 - length (hex_digits n)) 48 @ hex_digits n"

text \<open>
  The value of a hexadecimal text, and the lookup of an upload by the text of its identifier
  (\<open>find_one({"_id": ObjectId(oid)})\<close>); the program itself never reads the uploads.
\<close>

definition hexval :: "nat \<Rightarrow> nat" where
  "hexval c = (if c < 58 then c - 48 else c - 87)"

definition from_hex :: "pystr \<Rightarrow> nat" where
  "from_hex t = foldl (\<lambda>a c. a * 16 + hexval c) 0 t"

definition find_one_upload :: "upload_doc list \<Rightarrow> pystr \<Rightarrow> upload_doc option" where
  "find_one_upload coll oid = find (\<lambda>d. upload_id d = from_hex oid) coll"

definition new_upload_doc ::
  "pystr \<Rightarrow> user_doc \<Rightarrow> pystr \<Rightarrow> pystr \<Rightarrow> pystr \<Rightarrow> database \<Rightarrow> upload_doc" where
  "new_upload_doc now user_doc path cap desc d =
     \<lparr>upload_id = fresh_id (map upload_id (uploads_collection d)), owner_id = user_id user_doc,
      owner_username = username user_doc, image_path = path, caption = cap, description = desc,
      saved_at = now\<rparr>"

definition save_upload_record ::
  "pystr \<Rightarrow> user_doc \<Rightarrow> pystr \<Rightarrow> pystr \<Rightarrow> pystr \<Rightarrow> database \<Rightarrow> pystr \<times> database" where
  "save_upload_record now user_doc path cap desc d =
     (let doc = new_upload_doc now user_doc path cap desc d
      in (str_oid (upload_id doc), d\<lparr>uploads_collection := uploads_collection d @ [doc]\<rparr>))"

section \<open>Exceptions\<close>

text \<open>
  \<open>Raised m\<close> is an exception of a library call (image decoding, the captioning model, the
  text-generation service), \<open>m\<close> being its \<open>str()\<close>; the others are raised by the
  operations modelled here.
\<close>

datatype exn =
  Raised pystr
  | FileNotFoundError pystr
  | SameFileError pystr pystr
  | JSONDecodeError
  | TypeError
  | AttributeError

section \<open>The file system\<close>

text \<open>
  The file system maps a path to the bytes of the file there. \<open>shutil.copy2\<close> refuses a
  copy onto the same file and a missing source; other I/O failures are outside the model.
\<close>

type_synonym filesystem = "pystr \<Rightarrow> nat list option"

definition copy2 :: "pystr \<Rightarrow> pystr \<Rightarrow> filesystem \<Rightarrow> exn + filesystem" where
  "copy2 src dst fsys =
     (case fsys src of
        None \<Rightarrow> Inl (FileNotFoundError src)
      | Some bytes \<Rightarrow> if src = dst then Inl (SameFileError src dst) else Inr (fsys(dst \<mapsto> bytes)))"

section \<open>The caption cache file\<close>

datatype json =
  JNull
  | JBool bool
  | JNumber int
  | JString pystr
  | JArray "json list"
  | JObject "(pystr \<times> json) list"

text \<open>
  The cache file is absent, holds text that is not JSON, or holds a JSON value (the value
  \<open>json.load\<close> reads and \<open>json.dump\<close> writes); \<open>No_folder\<close> is the file absent
  together with its folder, where opening it for writing raises. A Python dict is the list of
  its items in insertion order; assigning to a key it has keeps the key's place.
\<close>

datatype cache_file = No_folder | Missing | Corrupt | Content json

definition CAPTIONS_FILE :: pystr where
  "CAPTIONS_FILE = py ''./artisan_images/captions.json''"

fun dict_set :: "('k \<times> 'v) list \<Rightarrow> 'k \<Rightarrow> 'v \<Rightarrow> ('k \<times> 'v) list" where
  "dict_set [] k v = [(k, v)]"
| "dict_set ((k', v') # kvs) k v = (if k' = k then (k, v) # kvs else (k', v') # dict_set kvs k v)"

definition entry :: "pystr \<Rightarrow> pystr \<Rightarrow> json" where
  "entry cap desc = JObject [(py ''caption'', JString cap), (py ''description'', JString desc)]"

fun save_to_json :: "pystr \<Rightarrow> pystr \<Rightarrow> pystr \<Rightarrow> cache_file \<Rightarrow> exn + cache_file" where
  "save_to_json image_name cap desc No_folder = Inl (FileNotFoundError CAPTIONS_FILE)"
| "save_to_json image_name cap desc Missing = Inr (Content (JObject (dict_set [] image_name (entry cap desc))))"
| "save_to_json image_name cap desc Corrupt = Inl JSONDecodeError"
| "save_to_json image_name cap desc (Content (JObject data)) =
     Inr (Content (JObject (dict_set data image_name (entry cap desc))))"
| "save_to_json image_name cap desc (Content _) = Inl TypeError"

section \<open>Caption and description generation\<close>

text \<open>
  The decoded image is opaque but for its printable form. The calls that leave the
  repository are parameters: each returns its value or raises.
\<close>

datatype image = Image (pixels: "nat list") (image_repr: pystr)

record models =
  image_open :: "nat list \<Rightarrow> exn + image"
  generate_caption :: "image \<Rightarrow> exn + pystr"
  generate_content :: "pystr \<Rightarrow> pystr + pystr"
  image_show :: "image \<Rightarrow> exn option"

definition story_prompt :: "pystr \<Rightarrow> int \<Rightarrow> pystr" where
  "story_prompt cap min_sentences =
     py ''Take the following image caption and expand it into a vivid, artisan-style description. ''
     @ py ''Include colors, textures, materials, patterns, environment, lighting, and emotions. ''
     @ py ''Make it at least '' @ str_int min_sentences @ py '' sentences.'' @ [10, 10]
     @ py ''Caption: '' @ cap"

text \<open>
  \<open>generate_content m prompt\<close> is \<open>Inr text\<close>, the \<open>response.text\<close> of the service, or
  \<open>Inl msg\<close> when anything inside the \<open>try\<close> raises, \<open>msg\<close> being the \<open>str()\<close> of the
  exception.
\<close>

definition expand_caption_to_story :: "models \<Rightarrow> pystr \<Rightarrow> int \<Rightarrow> pystr" where
  "expand_caption_to_story m cap min_sentences =
     (case generate_content m (story_prompt cap min_sentences) of
        Inr text \<Rightarrow> strip text
      | Inl msg \<Rightarrow> [10060] @ py '' Gemini expansion failed: '' @ msg)"

datatype pyval = PNone | PStr pystr | PImage image

type_synonym pydict = "(pystr \<times> pyval) list"

definition result_dict :: "pyval \<Rightarrow> pystr \<Rightarrow> pystr \<Rightarrow> pydict" where
  "result_dict img cap desc =
     [(py ''image'', img), (py ''caption'', PStr cap), (py ''description'', PStr desc)]"

text \<open>
  \<open>process_single_image\<close> of the pipeline: the result is \<open>None\<close> when the file is absent
  and when anything inside the \<open>try\<close> raises; console output is not modelled.
\<close>

definition process_single_image ::
  "models \<Rightarrow> pystr \<Rightarrow> filesystem \<Rightarrow> cache_file \<Rightarrow> pydict option \<times> cache_file" where
  "process_single_image m img_path fsys cache =
     (case fsys img_path of
        None \<Rightarrow> (None, cache)
      | Some bytes \<Rightarrow>
         (case image_open m bytes of
            Inl e \<Rightarrow> (None, cache)
          | Inr img \<Rightarrow>
             (case generate_caption m img of
                Inl e \<Rightarrow> (None, cache)
              | Inr cap \<Rightarrow>
                 (let desc = expand_caption_to_story m cap 3
                  in case image_show m img of
                       Some e \<Rightarrow> (None, cache)
                     | None \<Rightarrow>
                        (case save_to_json (os_path_basename img_path) cap desc cache of
                           Inl e \<Rightarrow> (None, cache)
                         | Inr cache' \<Rightarrow> (Some (result_dict (PImage img) cap desc), cache'))))))"

text \<open>The fallback stub, defined when the pipeline cannot be imported.\<close>

definition blip_process_single_image :: "pystr \<Rightarrow> pydict" where
  "blip_process_single_image img_path =
     (let basename = os_path_basename img_path;
          cap = py ''Placeholder caption for '' @ basename;
          desc = py ''Placeholder description for '' @ basename @ py '' -- model not loaded.''
      in result_dict PNone cap desc)"

section \<open>Image intake\<close>

text \<open>
  \<open>str.isalnum\<close> for one code point. Below 128 these are the digits and letters; above,
  the answer is the Unicode character database's, the parameter \<open>ucd\<close>.
\<close>

definition py_isalnum :: "(nat \<Rightarrow> bool) \<Rightarrow> nat \<Rightarrow> bool" where
  "py_isalnum ucd c \<longleftrightarrow>
     (if c < 128 then (48 \<le> c \<and> c \<le> 57) \<or> (65 \<le> c \<and> c \<le> 90) \<or> (97 \<le> c \<and> c \<le> 122)
      else ucd c)"

text \<open>
  What is fixed when the program starts: the folder of the environment, the character
  database, and the function the name \<open>blip_process_single_image\<close> is bound to: the
  pipeline's when its import succeeds, the fallback stub otherwise.
\<close>

record config =
  IMAGE_FOLDER :: pystr
  ucd_alnum :: "nat \<Rightarrow> bool"
  blip :: "pystr \<Rightarrow> filesystem \<Rightarrow> cache_file \<Rightarrow> (exn + pydict option) \<times> cache_file"

definition pipeline_generator ::
  "models \<Rightarrow> pystr \<Rightarrow> filesystem \<Rightarrow> cache_file \<Rightarrow> (exn + pydict option) \<times> cache_file" where
  "pipeline_generator m img_path fsys cache =
     (Inr (fst (process_single_image m img_path fsys cache)),
      snd (process_single_image m img_path fsys cache))"

definition stub_generator ::
  "pystr \<Rightarrow> filesystem \<Rightarrow> cache_file \<Rightarrow> (exn + pydict option) \<times> cache_file" where
  "stub_generator img_path fsys cache = (Inr (Some (blip_process_single_image img_path)), cache)"

text \<open>\<open>ts\<close> is the clock read \<open>int(datetime.utcnow().timestamp() * 1000)\<close>.\<close>

definition save_image_to_project ::
  "config \<Rightarrow> int \<Rightarrow> pystr \<Rightarrow> pystr \<Rightarrow> filesystem \<Rightarrow> exn + pystr \<times> filesystem" where
  "save_image_to_project cfg ts src_path uname fsys =
     (let ext = (if snd (os_path_splitext src_path) = [] then py ''.jpg''
                 else snd (os_path_splitext src_path));
          joined = strip (filter (\<lambda>c. py_isalnum (ucd_alnum cfg) c \<or> c = 95 \<or> c = 45) uname);
          safe_user = (if joined = [] then py ''user'' else joined);
          dest_name = safe_user @ py ''_'' @ str_int ts @ ext;
          dest_path = os_path_join (IMAGE_FOLDER cfg) dest_name
      in case copy2 src_path dest_path fsys of
           Inl e \<Rightarrow> Inl e
         | Inr fsys' \<Rightarrow> Inr (dest_path, fsys'))"

section \<open>The interactive shell\<close>

datatype screen = Login_screen | Signup_screen | Dashboard_screen

text \<open>
  A message box: its title and its text; \<open>Showerror_exn\<close> is the error box whose text ends
  with the \<open>str()\<close> of the exception caught.
\<close>

datatype dialog =
  Showwarning pystr pystr
  | Showinfo pystr pystr
  | Showerror pystr pystr
  | Showerror_exn pystr pystr exn

text \<open>
  The state the handlers read and write: the database, the files, the attributes of the
  dashboard object, the text of the two text widgets and of the status line, and the message
  boxes shown so far. The preview image is not modelled.
\<close>

record app =
  db :: database
  files :: filesystem
  captions_file :: cache_file
  screen :: screen
  current_user :: "user_doc option"
  selected_image_path :: "pystr option"
  caption_entry :: pystr
  description_entry :: pystr
  status_var :: pystr
  last_caption :: pyval
  last_description :: pyval
  dialogs :: "dialog list"

definition messagebox :: "dialog \<Rightarrow> app \<Rightarrow> app" where
  "messagebox d s = s\<lparr>dialogs := dialogs s @ [d]\<rparr>"

definition show_login_screen :: "app \<Rightarrow> app" where
  "show_login_screen s = s\<lparr>screen := Login_screen\<rparr>"

definition show_signup_screen :: "app \<Rightarrow> app" where
  "show_signup_screen s = s\<lparr>screen := Signup_screen\<rparr>"

definition show_dashboard :: "app \<Rightarrow> app" where
  "show_dashboard s =
     s\<lparr>screen := Dashboard_screen, caption_entry := [], description_entry := [],
       status_var := py ''Ready'', selected_image_path := None,
       last_caption := PStr [], last_description := PStr []\<rparr>"

text \<open>\<open>__init__\<close>: no user, the admin account seeded, the login screen.\<close>

definition init :: "pystr \<Rightarrow> database \<Rightarrow> filesystem \<Rightarrow> cache_file \<Rightarrow> app" where
  "init now d fsys cache =
     \<lparr>db = create_admin_if_not_exists now d, files = fsys, captions_file = cache,
      screen = Login_screen, current_user = None, selected_image_path = None,
      caption_entry = [], description_entry = [], status_var = [],
      last_caption = PStr [], last_description = PStr [], dialogs = []\<rparr>"

subsection \<open>Login and signup\<close>

text \<open>The arguments of \<open>do_login\<close> and \<open>do_create\<close> are the texts of the entry widgets.\<close>

definition auth_failed :: "app \<Rightarrow> app" where
  "auth_failed s = messagebox (Showerror (py ''Auth Failed'') (py ''Invalid username or password.'')) s"

definition do_login :: "pystr \<Rightarrow> pystr \<Rightarrow> app \<Rightarrow> app" where
  "do_login username_entry password_entry s =
     (let uname = strip username_entry; pwd = strip password_entry
      in if uname = [] \<or> pwd = []
         then messagebox (Showwarning (py ''Missing'') (py ''Please enter username and password.'')) s
         else (case find_one_username (users_collection (db s)) uname of
                 Some user \<Rightarrow>
                   if password user = hash_password pwd
                   then show_dashboard (s\<lparr>current_user := Some user\<rparr>)
                   else auth_failed s
               | None \<Rightarrow> auth_failed s))"

definition do_create :: "pystr \<Rightarrow> pystr \<Rightarrow> pystr \<Rightarrow> pystr \<Rightarrow> pystr \<Rightarrow> app \<Rightarrow> app" where
  "do_create now username_entry email_entry password_entry confirm_entry s =
     (let uname = strip username_entry; mail = strip email_entry;
          pwd = strip password_entry; conf = strip confirm_entry
      in if uname = [] \<or> mail = [] \<or> pwd = [] \<or> conf = []
         then messagebox (Showwarning (py ''Missing'') (py ''Please fill all fields.'')) s
         else if pwd \<noteq> conf
         then messagebox (Showerror (py ''Mismatch'') (py ''Passwords do not match.'')) s
         else if find_one_username (users_collection (db s)) uname \<noteq> None
         then messagebox (Showerror (py ''Exists'') (py ''Username already exists.'')) s
         else show_login_screen
                (messagebox (Showinfo (py ''Created'') (py ''Account created. You can now log in.''))
                   (s\<lparr>db := insert_user uname (hash_password pwd) mail False now (db s)\<rparr>)))"

text \<open>The three checks of \<open>do_create\<close>, on the texts as it trims them.\<close>

definition signup_rejected :: "pystr \<Rightarrow> pystr \<Rightarrow> pystr \<Rightarrow> pystr \<Rightarrow> app \<Rightarrow> bool" where
  "signup_rejected username_entry email_entry password_entry confirm_entry s \<longleftrightarrow>
     strip username_entry = [] \<or> strip email_entry = [] \<or> strip password_entry = []
     \<or> strip confirm_entry = [] \<or> strip password_entry \<noteq> strip confirm_entry
     \<or> find_one_username (users_collection (db s)) (strip username_entry) \<noteq> None"

definition logout :: "bool \<Rightarrow> app \<Rightarrow> app" where
  "logout confirm s = (if confirm then show_login_screen (s\<lparr>current_user := None\<rparr>) else s)"

subsection \<open>The dashboard\<close>

definition no_image :: "app \<Rightarrow> app" where
  "no_image s = messagebox (Showwarning (py ''No image'') (py ''Please select an image first.'')) s"

text \<open>
  \<open>path\<close> is what the file dialog returns, empty when the user cancels. Reading the user
  name of no user raises \<open>TypeError\<close>, inside the \<open>try\<close>.
\<close>

definition select_image :: "config \<Rightarrow> int \<Rightarrow> pystr \<Rightarrow> app \<Rightarrow> app" where
  "select_image cfg ts path s =
     (if path = [] then s
      else (case current_user s of
              None \<Rightarrow> messagebox (Showerror_exn (py ''Error'') (py ''Failed to select image: '') TypeError) s
            | Some user \<Rightarrow>
               (case save_image_to_project cfg ts path (username user) (files s) of
                  Inl e \<Rightarrow> messagebox (Showerror_exn (py ''Error'') (py ''Failed to select image: '') e) s
                | Inr (dest, fsys') \<Rightarrow>
                    s\<lparr>files := fsys', selected_image_path := Some dest,
                      caption_entry := [], description_entry := [],
                      status_var := py ''Selected '' @ os_path_basename dest @ [32, 8212, 32]
                                    @ py ''ready to generate''\<rparr>)))"

text \<open>Python's truth value, \<open>or\<close>, \<open>dict.get\<close> with a default, and the text Tk inserts.\<close>

fun truthy :: "pyval \<Rightarrow> bool" where
  "truthy PNone = False"
| "truthy (PStr t) = (t \<noteq> [])"
| "truthy (PImage i) = True"

definition py_or :: "pyval \<Rightarrow> pyval \<Rightarrow> pyval" where
  "py_or a b = (if truthy a then a else b)"

definition dict_get :: "pydict \<Rightarrow> pystr \<Rightarrow> pyval \<Rightarrow> pyval" where
  "dict_get d k dflt = (case map_of d k of Some v \<Rightarrow> v | None \<Rightarrow> dflt)"

fun tk_chars :: "pyval \<Rightarrow> pystr" where
  "tk_chars (PStr t) = t"
| "tk_chars PNone = py ''None''"
| "tk_chars (PImage i) = image_repr i"

text \<open>
  A result of \<open>None\<close> has no \<open>get\<close>: \<open>AttributeError\<close>, caught like an exception of the
  generator itself.
\<close>

definition generate_failed :: "exn \<Rightarrow> app \<Rightarrow> app" where
  "generate_failed e s =
     messagebox (Showerror_exn (py ''Generate failed'') (py ''Caption generation failed:'' @ [10]) e)
       (s\<lparr>status_var := py ''Generation failed''\<rparr>)"

definition generate_preview :: "config \<Rightarrow> app \<Rightarrow> app" where
  "generate_preview cfg s =
     (case selected_image_path s of
        None \<Rightarrow> no_image s
      | Some path \<Rightarrow>
         (let s1 = s\<lparr>status_var := py ''Generating caption '' @ [8212] @ py '' this may take a moment...''\<rparr>;
              called = blip cfg path (files s1) (captions_file s1);
              s2 = s1\<lparr>captions_file := snd called\<rparr>
          in case fst called of
               Inl e \<Rightarrow> generate_failed e s2
             | Inr None \<Rightarrow> generate_failed AttributeError s2
             | Inr (Some result) \<Rightarrow>
                (let cap = py_or (dict_get result (py ''caption'') (PStr [])) (PStr []);
                     desc = py_or (dict_get result (py ''description'') (PStr [])) cap
                 in s2\<lparr>caption_entry := tk_chars cap, description_entry := tk_chars desc,
                       last_caption := cap, last_description := desc,
                       status_var := py ''Generation complete '' @ [8212]
                                     @ py '' review then Save to DB''\<rparr>)))"

text \<open>\<open>Text.get("1.0", tk.END)\<close>: the text of the widget and the newline Tk ends it with.\<close>

definition text_get :: "pystr \<Rightarrow> pystr" where
  "text_get w = w @ [10]"

definition save_to_db :: "pystr \<Rightarrow> app \<Rightarrow> app" where
  "save_to_db now s =
     (case selected_image_path s of
        None \<Rightarrow> no_image s
      | Some path \<Rightarrow>
         (let cap = strip (text_get (caption_entry s));
              desc = strip (text_get (description_entry s))
          in if cap = [] \<and> desc = []
             then messagebox (Showwarning (py ''Empty'')
                    (py ''Caption/Description are empty. Generate first or enter text.'')) s
             else (case current_user s of
                     None \<Rightarrow>
                       messagebox (Showerror_exn (py ''Save failed'') (py ''Failed to save to DB:'' @ [10]) TypeError)
                         (s\<lparr>status_var := py ''Save failed''\<rparr>)
                   | Some user \<Rightarrow>
                      (let saved = save_upload_record now user path cap desc (db s)
                       in messagebox (Showinfo (py ''Saved'') (py ''Image and description saved to database.''))
                            (s\<lparr>db := snd saved,
                               status_var := py ''Saved (id='' @ fst saved @ py '')''\<rparr>)))))"

text \<open>
  What the user does, one event each; typing into a text widget replaces its text. A
  button acts on the screen that shows it.
\<close>

datatype event =
  Login pystr pystr
  | Go_signup
  | Create pystr pystr pystr pystr pystr
  | Back
  | Select int pystr
  | Type_caption pystr
  | Type_description pystr
  | Generate
  | Save pystr
  | Logout bool

fun step :: "config \<Rightarrow> app \<Rightarrow> event \<Rightarrow> app" where
  "step cfg s (Login u p) = (if screen s = Login_screen then do_login u p s else s)"
| "step cfg s Go_signup = (if screen s = Login_screen then show_signup_screen s else s)"
| "step cfg s (Create now u m p c) = (if screen s = Signup_screen then do_create now u m p c s else s)"
| "step cfg s Back = (if screen s = Signup_screen then show_login_screen s else s)"
| "step cfg s (Select ts path) = (if screen s = Dashboard_screen then select_image cfg ts path s else s)"
| "step cfg s (Type_caption t) = (if screen s = Dashboard_screen then s\<lparr>caption_entry := t\<rparr> else s)"
| "step cfg s (Type_description t) =
     (if screen s = Dashboard_screen then s\<lparr>description_entry := t\<rparr> else s)"
| "step cfg s Generate = (if screen s = Dashboard_screen then generate_preview cfg s else s)"
| "step cfg s (Save now) = (if screen s = Dashboard_screen then save_to_db now s else s)"
| "step cfg s (Logout confirm) = (if screen s = Dashboard_screen then logout confirm s else s)"

definition run :: "config \<Rightarrow> app \<Rightarrow> event list \<Rightarrow> app" where
  "run cfg s evs = foldl (step cfg) s evs"

text \<open>
  The history of a run: the selections that succeeded, each as the path the user chose and
  the path \<open>save_image_to_project\<close> returned for it.
\<close>

fun intake_of :: "config \<Rightarrow> app \<Rightarrow> event \<Rightarrow> (pystr \<times> pystr) list" where
  "intake_of cfg s (Select ts path) =
     (if screen s = Dashboard_screen \<and> path \<noteq> []
      then (case current_user s of
              None \<Rightarrow> []
            | Some user \<Rightarrow>
               (case save_image_to_project cfg ts path (username user) (files s) of
                  Inl e \<Rightarrow> []
                | Inr stored \<Rightarrow> [(path, fst stored)]))
      else [])"
| "intake_of cfg s _ = []"

declare intake_of.simps [simp del]

fun intakes :: "config \<Rightarrow> app \<Rightarrow> event list \<Rightarrow> (pystr \<times> pystr) list" where
  "intakes cfg s [] = []"
| "intakes cfg s (ev # evs) = intake_of cfg s ev @ intakes cfg (step cfg s ev) evs"

section \<open>A session to run\<close>

text \<open>
  An empty database, one image file of the user, the default folder, the fallback stub:
  the program as it starts on a fresh machine without the model.
\<close>

definition now0 :: pystr where
  "now0 = py ''2024-01-01T00:00:00''"

definition photo :: pystr where
  "photo = py ''/home/alice/photo.jpg''"

definition cfg0 :: config where
  "cfg0 = \<lparr>IMAGE_FOLDER = py ''artisan_images'', ucd_alnum = (\<lambda>c. False), blip = stub_generator\<rparr>"

definition app0 :: app where
  "app0 = init now0 \<lparr>users_collection = [], uploads_collection = []\<rparr> [photo \<mapsto> [255, 216, 255]] Missing"

definition alice_signed_up :: app where
  "alice_signed_up = do_create now0 (py ''alice'') (py ''a@x.com'') (py ''pw1'') (py ''pw1'') app0"

definition alice_dashboard :: app where
  "alice_dashboard =
     run cfg0 alice_signed_up [Login (py ''alice'') (py ''pw1''), Select 1700000000000 photo]"

text \<open>A generator whose result has a caption and no description text.\<close>

definition caption_only :: "pystr \<Rightarrow> filesystem \<Rightarrow> cache_file \<Rightarrow> (exn + pydict option) \<times> cache_file" where
  "caption_only img_path fsys cache =
     (Inr (Some [(py ''caption'', PStr (py ''a clay bowl'')), (py ''description'', PNone)]), cache)"

definition session0 :: "event list" where
  "session0 =
     [Go_signup, Create now0 (py ''alice'') (py ''a@x.com'') (py ''pw1'') (py ''pw1''),
      Login (py ''alice'') (py ''pw1''), Select 1700000000000 photo, Generate, Save now0]"

text \<open>The pipeline with the text-generation service failing, and with the captioning model failing.\<close>

definition gemini_down :: models where
  "gemini_down =
     \<lparr>image_open = (\<lambda>bytes. Inr (Image bytes (py ''<PIL.Image.Image>''))),
      generate_caption = (\<lambda>img. Inr (py ''a clay bowl'')),
      generate_content = (\<lambda>prompt. Inl (py ''429 quota exceeded'')),
      image_show = (\<lambda>img. None)\<rparr>"

definition blip_down :: models where
  "blip_down =
     \<lparr>image_open = (\<lambda>bytes. Inr (Image bytes (py ''<PIL.Image.Image>''))),
      generate_caption = (\<lambda>img. Inl (Raised (py ''CUDA out of memory''))),
      generate_content = (\<lambda>prompt. Inr (py ''A bowl.'')),
      image_show = (\<lambda>img. None)\<rparr>"

section \<open>Trimming\<close>

lemma dropWhile_rev_stable:
  assumes "xs = [] \<or> \<not> P (hd xs)"
  shows "dropWhile P (rev (dropWhile P (rev xs))) = rev (dropWhile P (rev xs))"
proof (cases xs)
  case Nil
  then show ?thesis by simp
next
  case (Cons x ys)
  with assms have nx: "\<not> P x" by simp
  have eq: "rev (dropWhile P (rev (x # ys))) = x # rev (dropWhile P (rev ys))"
    using nx by (simp add: dropWhile_append3)
  show ?thesis unfolding Cons eq using nx by simp
qed

lemma strip_idem: "strip (strip s) = strip s"
proof -
  have h: "dropWhile py_isspace s = [] \<or> \<not> py_isspace (hd (dropWhile py_isspace s))"
    by (metis hd_dropWhile)
  have "dropWhile py_isspace (rev (dropWhile py_isspace (rev (dropWhile py_isspace s))))
        = rev (dropWhile py_isspace (rev (dropWhile py_isspace s)))"
    using h by (rule dropWhile_rev_stable)
  then show ?thesis
    unfolding strip_def by (simp add: dropWhile_idem)
qed

lemma strip_text_get: "strip (text_get w) = strip w"
proof -
  have sp: "py_isspace 10" by (simp add: py_isspace_def)
  show ?thesis
  proof (cases "dropWhile py_isspace w = []")
    case True
    then have "\<forall>x\<in>set w. py_isspace x" by simp
    then have "dropWhile py_isspace (w @ [10]) = []" using sp by simp
    with True show ?thesis by (simp add: strip_def text_get_def del: dropWhile_eq_Nil_conv)
  next
    case False
    then have "dropWhile py_isspace (w @ [10]) = dropWhile py_isspace w @ [10]"
      by (metis dropWhile_append1 dropWhile_eq_Nil_conv)
    then show ?thesis using sp by (simp add: strip_def text_get_def)
  qed
qed

section \<open>Signup and login\<close>

lemma find_append:
  "find P (xs @ ys) = (case find P xs of None \<Rightarrow> find P ys | Some x \<Rightarrow> Some x)"
  by (induction xs) auto

lemma find_one_username_new:
  assumes "find_one_username coll (username doc) = None"
  shows "find_one_username (coll @ [doc] @ later) (username doc) = Some doc"
  using assms by (simp add: find_one_username_def find_append)

lemmas eval_string = py_def strip_def py_isspace_def

lemma signup_accepted:
  assumes "strip u \<noteq> []" "strip m \<noteq> []" "strip p \<noteq> []" "strip c \<noteq> []"
    and "strip p = strip c"
    and "find_one_username (users_collection (db s)) (strip u) = None"
  shows "users_collection (db (do_create now u m p c s)) =
           users_collection (db s) @ [new_user_doc (strip u) (hash_password (strip p)) (strip m) False now (db s)]"
  using assms by (simp add: do_create_def show_login_screen_def messagebox_def insert_user_def)

text \<open>
  Claim C1, with the trimming the handlers do. When the four entries of the signup form are
  non-empty once trimmed, the trimmed password equals the trimmed confirmation and no user
  has the trimmed name, \<open>do_create\<close> stores a record, and a login with the same name and
  password in any later state (the users collection only grows) opens the dashboard with that
  record as the current user.
\<close>

theorem login_after_signup:
  assumes "strip u \<noteq> []" "strip m \<noteq> []" "strip p \<noteq> []" "strip c \<noteq> []"
    and "strip p = strip c"
    and "find_one_username (users_collection (db s)) (strip u) = None"
    and "users_collection (db s') = users_collection (db (do_create now u m p c s)) @ later"
  shows "do_login u p s' =
           show_dashboard (s'\<lparr>current_user :=
             Some (new_user_doc (strip u) (hash_password (strip p)) (strip m) False now (db s))\<rparr>)"
proof -
  let ?doc = "new_user_doc (strip u) (hash_password (strip p)) (strip m) False now (db s)"
  have name: "username ?doc = strip u" and pw: "password ?doc = hash_password (strip p)"
    by (simp_all add: new_user_doc_def)
  have "users_collection (db s') = users_collection (db s) @ [?doc] @ later"
    using assms(7) signup_accepted[OF assms(1-6)] by simp
  then have "find_one_username (users_collection (db s')) (strip u) = Some ?doc"
    using find_one_username_new[of "users_collection (db s)" ?doc later] assms(6) name by simp
  then show ?thesis
    using assms(1,3) pw by (simp add: do_login_def)
qed

theorem login_after_signup_witness:
  "current_user (do_login (py ''alice'') (py ''pw1'') alice_signed_up) =
     Some \<lparr>user_id = 2, username = py ''alice'', password = hash_password (py ''pw1''),
           email = py ''a@x.com'', is_admin = False, created_at = now0\<rparr>
   \<and> screen (do_login (py ''alice'') (py ''pw1'') alice_signed_up) = Dashboard_screen"
  using login_after_signup [of "py ''alice''" "py ''a@x.com''" "py ''pw1''" "py ''pw1''" app0
           alice_signed_up now0 "[]"]
  by (simp add: alice_signed_up_def app0_def init_def create_admin_if_not_exists_def
        find_one_username_def insert_user_def new_user_doc_def fresh_id_def show_dashboard_def
        eval_string)

text \<open>
  Claim C1 as it is written fails: the four entries below are non-empty, the password equals
  the confirmation and no user is named by a single space, yet the signup is refused and the
  login after it is refused too.
\<close>

theorem signup_blank_username_counterexample:
  "py '' '' \<noteq> [] \<and> py ''a@x.com'' \<noteq> [] \<and> py ''pw1'' \<noteq> []
   \<and> find_one_username (users_collection (db app0)) (py '' '') = None
   \<and> do_create now0 (py '' '') (py ''a@x.com'') (py ''pw1'') (py ''pw1'') app0
       = messagebox (Showwarning (py ''Missing'') (py ''Please fill all fields.'')) app0
   \<and> current_user (do_login (py '' '') (py ''pw1'')
         (do_create now0 (py '' '') (py ''a@x.com'') (py ''pw1'') (py ''pw1'') app0)) = None
   \<and> screen (do_login (py '' '') (py ''pw1'')
         (do_create now0 (py '' '') (py ''a@x.com'') (py ''pw1'') (py ''pw1'') app0)) = Login_screen"
  by (simp add: do_login_def do_create_def app0_def init_def create_admin_if_not_exists_def
        find_one_username_def insert_user_def new_user_doc_def messagebox_def eval_string)

lemma replicate_num: "replicate (numeral n) x = x # replicate (pred_numeral n) x"
  by (simp add: numeral_eq_Suc)

lemmas sha_eval = hash_password_def sha256_def pad_def be_bytes4_def compress_def K256_def H0_def
  replicate_num words.simps schedule.simps blocks.simps next_w_def round1_def shift_in_def
  utf8_char_def hexdigit_def bsig0_def bsig1_def ssig0_def ssig1_def ch_def maj_def rotr_def
  shr_def add32_def not32_def

text \<open>
  The digest, computed: the example of FIPS 180-4 and the two passwords of the session below.
\<close>

lemma hash_abc: "hash_password (py ''abc'') = py ''ba7816bf8f01cfea414140de5dae2223b00361a396177a9cb410ff61f20015ad''"
  by (simp add: sha_eval py_def)

lemma hash_pw1: "hash_password [112, 119, 49] = py ''c592df4a86933b92addc9842402ddf198c638ea9be58916ee6e3734e1e3152f8''"
  by (simp add: sha_eval py_def)

lemma hash_wrong: "hash_password [119, 114, 111, 110, 103] = py ''8810ad581e59f2bc3928b261707a71308f7e139eb04820366dc4d5c18d980225''"
  by (simp add: sha_eval py_def)

text \<open>
  Claim C2, with the trimming the handlers do. After a signup as in C1, a login with the same
  name and a password whose trimmed text is non-empty and has another SHA-256 digest than the
  trimmed signup password is answered with the box "Auth Failed".
\<close>

theorem wrong_password_rejected:
  assumes "strip u \<noteq> []" "strip m \<noteq> []" "strip p \<noteq> []" "strip c \<noteq> []"
    and "strip p = strip c"
    and "find_one_username (users_collection (db s)) (strip u) = None"
    and "users_collection (db s') = users_collection (db (do_create now u m p c s)) @ later"
    and "strip p' \<noteq> []"
    and "hash_password (strip p') \<noteq> hash_password (strip p)"
  shows "do_login u p' s' = auth_failed s'"
proof -
  let ?doc = "new_user_doc (strip u) (hash_password (strip p)) (strip m) False now (db s)"
  have name: "username ?doc = strip u" and pw: "password ?doc = hash_password (strip p)"
    by (simp_all add: new_user_doc_def)
  have "users_collection (db s') = users_collection (db s) @ [?doc] @ later"
    using assms(7) signup_accepted[OF assms(1-6)] by simp
  then have "find_one_username (users_collection (db s')) (strip u) = Some ?doc"
    using find_one_username_new[of "users_collection (db s)" ?doc later] assms(6) name by simp
  then show ?thesis
    using assms(1,8,9) pw by (simp add: do_login_def)
qed

theorem wrong_password_rejected_witness:
  "do_login (py ''alice'') (py ''wrong'') alice_signed_up = auth_failed alice_signed_up
   \<and> current_user (do_login (py ''alice'') (py ''wrong'') alice_signed_up) = None"
proof -
  have ne: "hash_password (strip (py ''wrong'')) \<noteq> hash_password (strip (py ''pw1''))"
    by (simp add: eval_string hash_pw1 hash_wrong)
  have "do_login (py ''alice'') (py ''wrong'') alice_signed_up = auth_failed alice_signed_up"
    using wrong_password_rejected [of "py ''alice''" "py ''a@x.com''" "py ''pw1''" "py ''pw1''" app0
           alice_signed_up now0 "[]" "py ''wrong''"] ne
    by (simp add: alice_signed_up_def app0_def init_def create_admin_if_not_exists_def
        find_one_username_def insert_user_def new_user_doc_def eval_string)
  then show ?thesis
    by (simp add: auth_failed_def messagebox_def alice_signed_up_def do_create_def app0_def init_def
          show_login_screen_def create_admin_if_not_exists_def find_one_username_def
          insert_user_def new_user_doc_def eval_string Let_def)
qed

text \<open>
  Claim C2 as it is written fails: the password typed at login differs from the one typed at
  signup by a trailing space, and the login succeeds.
\<close>

theorem trailing_space_password_counterexample:
  "py ''pw1 '' \<noteq> py ''pw1''
   \<and> current_user (do_login (py ''alice'') (py ''pw1 '') alice_signed_up) =
       Some \<lparr>user_id = 2, username = py ''alice'', password = hash_password (py ''pw1''),
             email = py ''a@x.com'', is_admin = False, created_at = now0\<rparr>
   \<and> screen (do_login (py ''alice'') (py ''pw1 '') alice_signed_up) = Dashboard_screen"
  by (simp add: do_login_def alice_signed_up_def do_create_def app0_def init_def
        create_admin_if_not_exists_def find_one_username_def insert_user_def new_user_doc_def
        fresh_id_def show_dashboard_def show_login_screen_def messagebox_def eval_string Let_def)

text \<open>
  Claim C8, with the trimming the handlers do. A signup is refused exactly when, once trimmed,
  an entry is empty, the confirmation differs from the password, or the name is taken; a
  refused signup leaves the database as it was, and an accepted one appends one user record,
  not an admin, and leaves the uploads alone.
\<close>

theorem signup_outcome:
  "(signup_rejected u m p c s \<longrightarrow> db (do_create now u m p c s) = db s)
   \<and> (\<not> signup_rejected u m p c s \<longrightarrow>
        users_collection (db (do_create now u m p c s)) =
          users_collection (db s) @ [new_user_doc (strip u) (hash_password (strip p)) (strip m) False now (db s)]
        \<and> is_admin (new_user_doc (strip u) (hash_password (strip p)) (strip m) False now (db s)) = False
        \<and> uploads_collection (db (do_create now u m p c s)) = uploads_collection (db s)
        \<and> db (do_create now u m p c s) \<noteq> db s)"
proof -
  have "db (do_create now u m p c s) \<noteq> db s" if "\<not> signup_rejected u m p c s"
  proof
    assume "db (do_create now u m p c s) = db s"
    then have "length (users_collection (db (do_create now u m p c s))) = length (users_collection (db s))"
      by simp
    then show False using that
      by (simp add: signup_rejected_def do_create_def show_login_screen_def messagebox_def insert_user_def)
  qed
  then show ?thesis
    by (auto simp add: signup_rejected_def do_create_def show_login_screen_def messagebox_def
          insert_user_def new_user_doc_def Let_def)
qed

theorem signup_outcome_witness:
  "\<not> signup_rejected (py ''alice'') (py ''a@x.com'') (py ''pw1'') (py ''pw1'') app0
   \<and> map username (users_collection (db alice_signed_up)) = [py ''admin'', py ''alice'']
   \<and> map is_admin (users_collection (db alice_signed_up)) = [True, False]
   \<and> signup_rejected (py ''alice'') (py ''a@x.com'') (py ''pw1'') (py ''pw2'') app0
   \<and> db (do_create now0 (py ''alice'') (py ''a@x.com'') (py ''pw1'') (py ''pw2'') app0) = db app0"
  using signup_outcome [of "py ''alice''" "py ''a@x.com''" "py ''pw1''" "py ''pw1''" app0 now0]
    signup_outcome [of "py ''alice''" "py ''a@x.com''" "py ''pw1''" "py ''pw2''" app0 now0]
  by (simp add: signup_rejected_def alice_signed_up_def app0_def init_def
        create_admin_if_not_exists_def find_one_username_def insert_user_def new_user_doc_def
        eval_string)

text \<open>
  Claim C8 as it is written fails: the confirmation below differs from the password (by a
  trailing space), and the signup stores a user.
\<close>

theorem signup_untrimmed_confirmation_counterexample:
  "py ''pw1 '' \<noteq> py ''pw1''
   \<and> map username (users_collection (db (do_create now0 (py ''alice'') (py ''a@x.com'') (py ''pw1'') (py ''pw1 '') app0)))
       = [py ''admin'', py ''alice'']
   \<and> map username (users_collection (db app0)) = [py ''admin'']"
  by (simp add: do_create_def app0_def init_def create_admin_if_not_exists_def
        find_one_username_def insert_user_def new_user_doc_def show_login_screen_def messagebox_def
        eval_string Let_def)

section \<open>The session, evaluated\<close>

lemma digits_numeral: "digits (numeral k) =
   (if (numeral k :: nat) < 10 then [48 + numeral k] else digits (numeral k div 10) @ [48 + numeral k mod 10])"
  by (rule digits.simps)

lemma digits_one: "digits (Suc 0) = [49]"
  by (simp add: digits.simps)

lemmas eval_intake = save_image_to_project_def os_path_splitext_def os_path_join_def
  os_path_basename_def rfind_def py_isalnum_def copy2_def str_int_def digits_numeral digits_one

lemmas eval_session = app0_def init_def create_admin_if_not_exists_def find_one_username_def
  insert_user_def new_user_doc_def fresh_id_def alice_signed_up_def do_create_def do_login_def
  show_login_screen_def show_dashboard_def messagebox_def cfg0_def photo_def

lemma alice_dashboard_state:
  "selected_image_path alice_dashboard = Some (py ''artisan_images/alice_1700000000000.jpg'')
   \<and> current_user alice_dashboard =
       Some \<lparr>user_id = 2, username = py ''alice'', password = hash_password (py ''pw1''),
             email = py ''a@x.com'', is_admin = False, created_at = now0\<rparr>
   \<and> caption_entry alice_dashboard = [] \<and> description_entry alice_dashboard = []
   \<and> screen alice_dashboard = Dashboard_screen
   \<and> uploads_collection (db alice_dashboard) = []
   \<and> files alice_dashboard (py ''artisan_images/alice_1700000000000.jpg'') = Some [255, 216, 255]
   \<and> captions_file alice_dashboard = Missing \<and> dialogs alice_dashboard = dialogs alice_signed_up"
  by (simp add: alice_dashboard_def run_def select_image_def eval_session eval_intake eval_string Let_def)

section \<open>Saving an upload\<close>

lemma fresh_id_bound: "x \<in> set ids \<Longrightarrow> x < fresh_id ids"
  by (induction ids) (auto simp add: fresh_id_def)

lemma find_last_new:
  assumes "\<forall>x\<in>set xs. \<not> P x" and "P y"
  shows "find P (xs @ [y]) = Some y"
  using assms by (induction xs) auto

lemma hexval_hexdigit: "d < 16 \<Longrightarrow> hexval (hexdigit d) = d"
  by (simp add: hexval_def hexdigit_def)

lemma from_hex_snoc: "from_hex (t @ [c]) = from_hex t * 16 + hexval c"
  by (simp add: from_hex_def)

lemma from_hex_hex_digits: "from_hex (hex_digits n) = n"
proof (induction n rule: hex_digits.induct)
  case (1 n)
  show ?case
  proof (cases "n < 16")
    case True
    then show ?thesis
      by (subst hex_digits.simps) (simp add: from_hex_def hexval_hexdigit)
  next
    case False
    then have "from_hex (hex_digits n) = from_hex (hex_digits (n div 16)) * 16 + hexval (hexdigit (n mod 16))"
      by (subst hex_digits.simps) (simp add: from_hex_snoc)
    also have "\<dots> = n div 16 * 16 + n mod 16"
      using 1 False by (simp add: hexval_hexdigit)
    finally show ?thesis by simp
  qed
qed

lemma from_hex_zeros: "from_hex (replicate k 48 @ t) = from_hex t"
proof -
  have "foldl (\<lambda>a c. a * 16 + hexval c) 0 (replicate k 48) = 0"
    by (induction k) (simp_all add: hexval_def)
  then show ?thesis by (simp add: from_hex_def)
qed

lemma from_hex_str_oid: "from_hex (str_oid n) = n"
  by (simp add: str_oid_def from_hex_zeros from_hex_hex_digits)

text \<open>
  Claim C4. With an image selected and both text widgets empty once trimmed, the save action
  shows the warning "Empty" and nothing more: the database is the one before.
\<close>

theorem save_empty_rejected:
  assumes "selected_image_path s = Some path"
    and "strip (caption_entry s) = []" and "strip (description_entry s) = []"
  shows "save_to_db now s =
           messagebox (Showwarning (py ''Empty'')
             (py ''Caption/Description are empty. Generate first or enter text.'')) s
         \<and> db (save_to_db now s) = db s"
  using assms by (simp add: save_to_db_def strip_text_get messagebox_def)

theorem save_empty_rejected_witness:
  "uploads_collection (db (save_to_db now0 alice_dashboard)) = []
   \<and> db (save_to_db now0 alice_dashboard) = db alice_dashboard
   \<and> dialogs (save_to_db now0 alice_dashboard) = dialogs alice_dashboard @
        [Showwarning (py ''Empty'') (py ''Caption/Description are empty. Generate first or enter text.'')]"
  using save_empty_rejected [of alice_dashboard "py ''artisan_images/alice_1700000000000.jpg''" now0]
    alice_dashboard_state
  by (simp add: strip_def messagebox_def)

text \<open>
  Claim C6, as the code has it. With an image selected, a user logged in and a caption that is
  non-empty once trimmed, the save action appends exactly one upload record, whose caption and
  description are the trimmed texts of the two widgets; the status line shows its identifier,
  and a lookup by that identifier returns the record.
\<close>

theorem save_persists_trimmed_text:
  assumes "selected_image_path s = Some path" and "current_user s = Some user"
    and "strip (caption_entry s) \<noteq> []"
  shows "uploads_collection (db (save_to_db now s)) =
           uploads_collection (db s) @
             [new_upload_doc now user path (strip (caption_entry s)) (strip (description_entry s)) (db s)]
         \<and> status_var (save_to_db now s) =
             py ''Saved (id='' @ str_oid (fresh_id (map upload_id (uploads_collection (db s)))) @ py '')''
         \<and> find_one_upload (uploads_collection (db (save_to_db now s)))
               (str_oid (fresh_id (map upload_id (uploads_collection (db s))))) =
             Some \<lparr>upload_id = fresh_id (map upload_id (uploads_collection (db s))),
                   owner_id = user_id user, owner_username = username user, image_path = path,
                   caption = strip (caption_entry s), description = strip (description_entry s),
                   saved_at = now\<rparr>
         \<and> users_collection (db (save_to_db now s)) = users_collection (db s)"
proof -
  let ?doc = "new_upload_doc now user path (strip (caption_entry s)) (strip (description_entry s)) (db s)"
  have saved: "save_to_db now s =
      messagebox (Showinfo (py ''Saved'') (py ''Image and description saved to database.''))
        (s\<lparr>db := (db s)\<lparr>uploads_collection := uploads_collection (db s) @ [?doc]\<rparr>,
           status_var := py ''Saved (id='' @ str_oid (upload_id ?doc) @ py '')''\<rparr>)"
    using assms by (simp add: save_to_db_def strip_text_get save_upload_record_def Let_def)
  have "\<forall>d\<in>set (uploads_collection (db s)). upload_id d \<noteq> upload_id ?doc"
    using fresh_id_bound[of _ "map upload_id (uploads_collection (db s))"]
    by (fastforce simp add: new_upload_doc_def)
  then have "find (\<lambda>d. upload_id d = upload_id ?doc) (uploads_collection (db s) @ [?doc]) = Some ?doc"
    by (intro find_last_new) simp_all
  then show ?thesis
    unfolding saved
    by (simp add: messagebox_def find_one_upload_def from_hex_str_oid new_upload_doc_def)
qed

theorem save_persists_trimmed_text_witness:
  "uploads_collection (db (save_to_db now0 (step cfg0 alice_dashboard (Type_caption (py ''a clay bowl''))))) =
     [\<lparr>upload_id = 1, owner_id = 2, owner_username = py ''alice'',
       image_path = py ''artisan_images/alice_1700000000000.jpg'',
       caption = py ''a clay bowl'', description = [], saved_at = now0\<rparr>]
   \<and> find_one_upload (uploads_collection (db (save_to_db now0 (step cfg0 alice_dashboard (Type_caption (py ''a clay bowl''))))))
        (py ''000000000000000000000001'') =
       Some \<lparr>upload_id = 1, owner_id = 2, owner_username = py ''alice'',
             image_path = py ''artisan_images/alice_1700000000000.jpg'',
             caption = py ''a clay bowl'', description = [], saved_at = now0\<rparr>"
  using save_persists_trimmed_text [of "step cfg0 alice_dashboard (Type_caption (py ''a clay bowl''))"
      "py ''artisan_images/alice_1700000000000.jpg''"
      "\<lparr>user_id = 2, username = py ''alice'', password = hash_password (py ''pw1''),
        email = py ''a@x.com'', is_admin = False, created_at = now0\<rparr>" now0]
    alice_dashboard_state
  by (simp add: new_upload_doc_def fresh_id_def str_oid_def hex_digits.simps hexdigit_def eval_string
        replicate_num find_one_upload_def from_hex_def hexval_def)

text \<open>
  Claim C6 as it is written fails: the caption widget holds a text that starts with a space,
  and the record saved holds the text without it.
\<close>

theorem save_untrimmed_caption_counterexample:
  "selected_image_path (step cfg0 alice_dashboard (Type_caption (py '' a clay bowl''))) \<noteq> None
   \<and> caption_entry (step cfg0 alice_dashboard (Type_caption (py '' a clay bowl''))) \<noteq> []
   \<and> map caption (uploads_collection (db (save_to_db now0 (step cfg0 alice_dashboard (Type_caption (py '' a clay bowl''))))))
       = [py ''a clay bowl'']
   \<and> py ''a clay bowl'' \<noteq> caption_entry (step cfg0 alice_dashboard (Type_caption (py '' a clay bowl'')))"
  using alice_dashboard_state
  by (simp add: save_to_db_def save_upload_record_def new_upload_doc_def messagebox_def text_get_def
        eval_string Let_def)

section \<open>The fallback stub\<close>

lemma generate_preview_stub:
  assumes "blip cfg = stub_generator" and "selected_image_path s = Some path"
  shows "generate_preview cfg s =
     s\<lparr>status_var := py ''Generation complete '' @ [8212] @ py '' review then Save to DB'',
       captions_file := captions_file s,
       caption_entry := py ''Placeholder caption for '' @ os_path_basename path,
       description_entry := py ''Placeholder description for '' @ os_path_basename path
                            @ py '' -- model not loaded.'',
       last_caption := PStr (py ''Placeholder caption for '' @ os_path_basename path),
       last_description := PStr (py ''Placeholder description for '' @ os_path_basename path
                            @ py '' -- model not loaded.'')\<rparr>"
  using assms
  by (simp add: generate_preview_def stub_generator_def blip_process_single_image_def result_dict_def
        dict_get_def py_or_def py_def Let_def)

text \<open>
  Claim C9. The fallback stub returns the two placeholder texts built from the base name of
  the path, and nothing else of the state enters: with the stub bound, the generate action
  shows these texts in any state with that image selected, and shows them again when run again.
\<close>

theorem stub_generation_deterministic:
  assumes "blip cfg = stub_generator"
    and "selected_image_path s = Some path" and "selected_image_path s' = Some path"
  shows "blip_process_single_image path =
           [(py ''image'', PNone),
            (py ''caption'', PStr (py ''Placeholder caption for '' @ os_path_basename path)),
            (py ''description'', PStr (py ''Placeholder description for '' @ os_path_basename path
                                       @ py '' -- model not loaded.''))]
         \<and> caption_entry (generate_preview cfg s) = py ''Placeholder caption for '' @ os_path_basename path
         \<and> description_entry (generate_preview cfg s) =
             py ''Placeholder description for '' @ os_path_basename path @ py '' -- model not loaded.''
         \<and> caption_entry (generate_preview cfg s') = caption_entry (generate_preview cfg s)
         \<and> description_entry (generate_preview cfg s') = description_entry (generate_preview cfg s)
         \<and> caption_entry (generate_preview cfg (generate_preview cfg s)) = caption_entry (generate_preview cfg s)
         \<and> description_entry (generate_preview cfg (generate_preview cfg s)) =
             description_entry (generate_preview cfg s)"
proof -
  have again: "selected_image_path (generate_preview cfg s) = Some path"
    using assms(1,2) by (simp add: generate_preview_stub)
  show ?thesis
    using assms again
    by (simp add: generate_preview_stub[OF assms(1)] blip_process_single_image_def result_dict_def Let_def)
qed

theorem stub_generation_deterministic_witness:
  "caption_entry (generate_preview cfg0 alice_dashboard) =
     py ''Placeholder caption for alice_1700000000000.jpg''
   \<and> description_entry (generate_preview cfg0 alice_dashboard) =
     py ''Placeholder description for alice_1700000000000.jpg -- model not loaded.''
   \<and> caption_entry (generate_preview cfg0 (generate_preview cfg0 alice_dashboard)) =
     py ''Placeholder caption for alice_1700000000000.jpg''"
  using stub_generation_deterministic [of cfg0 alice_dashboard
      "py ''artisan_images/alice_1700000000000.jpg''" alice_dashboard]
    alice_dashboard_state
  by (simp add: cfg0_def os_path_basename_def rfind_def py_def)

section \<open>A result without description\<close>

text \<open>
  Claim C10. When the generator returns a result with a non-empty caption and a description
  that is absent, \<open>None\<close> or empty, the generate action shows the caption in both widgets, so
  the description widget is not empty; a save right after it stores the trimmed caption as
  caption and as description.
\<close>

theorem caption_replaces_missing_description:
  assumes "selected_image_path s = Some path"
    and "fst (blip cfg path (files s) (captions_file s)) = Inr (Some result)"
    and "map_of result (py ''caption'') = Some (PStr cap)" and "cap \<noteq> []"
    and "map_of result (py ''description'') = None \<or> map_of result (py ''description'') = Some PNone
         \<or> map_of result (py ''description'') = Some (PStr [])"
  shows "caption_entry (generate_preview cfg s) = cap
         \<and> description_entry (generate_preview cfg s) = cap
         \<and> description_entry (generate_preview cfg s) \<noteq> []
         \<and> (strip cap \<noteq> [] \<and> current_user s = Some user \<longrightarrow>
              map description (uploads_collection (db (save_to_db now (generate_preview cfg s)))) =
                map description (uploads_collection (db s)) @ [strip cap]
              \<and> map caption (uploads_collection (db (save_to_db now (generate_preview cfg s)))) =
                map caption (uploads_collection (db s)) @ [strip cap])"
proof -
  have shown: "caption_entry (generate_preview cfg s) = cap" "description_entry (generate_preview cfg s) = cap"
    and kept: "selected_image_path (generate_preview cfg s) = Some path"
      "current_user (generate_preview cfg s) = current_user s" "db (generate_preview cfg s) = db s"
    using assms by (auto simp add: generate_preview_def dict_get_def py_or_def Let_def)
  have "map description (uploads_collection (db (save_to_db now (generate_preview cfg s)))) =
          map description (uploads_collection (db s)) @ [strip cap]
        \<and> map caption (uploads_collection (db (save_to_db now (generate_preview cfg s)))) =
          map caption (uploads_collection (db s)) @ [strip cap]"
    if "strip cap \<noteq> []" "current_user s = Some user"
    using that shown kept
    by (simp add: save_to_db_def strip_text_get save_upload_record_def new_upload_doc_def
          messagebox_def Let_def)
  then show ?thesis using shown assms(4) by simp
qed

theorem caption_replaces_missing_description_witness:
  "description_entry (generate_preview (cfg0\<lparr>blip := caption_only\<rparr>) alice_dashboard) = py ''a clay bowl''
   \<and> map description (uploads_collection (db (save_to_db now0
         (generate_preview (cfg0\<lparr>blip := caption_only\<rparr>) alice_dashboard)))) = [py ''a clay bowl'']"
  using caption_replaces_missing_description [of alice_dashboard
      "py ''artisan_images/alice_1700000000000.jpg''" "cfg0\<lparr>blip := caption_only\<rparr>"
      "[(py ''caption'', PStr (py ''a clay bowl'')), (py ''description'', PNone)]" "py ''a clay bowl''"
      "\<lparr>user_id = 2, username = py ''alice'', password = hash_password (py ''pw1''),
        email = py ''a@x.com'', is_admin = False, created_at = now0\<rparr>" now0]
    alice_dashboard_state
  by (simp add: caption_only_def eval_string)

section \<open>The cache file\<close>

lemma map_of_dict_set: "map_of (dict_set data k v) = (map_of data)(k \<mapsto> v)"
  by (induction data k v rule: dict_set.induct) auto

text \<open>
  Claim C7. On an absent file \<open>save_to_json\<close> writes the one entry. On a file holding a
  mapping it writes a mapping where the image name has exactly the new caption and
  description and every other key has the value it had; a key already there keeps its place,
  a new one comes last.
\<close>

theorem save_to_json_merges_one_key:
  "save_to_json image_name cap desc Missing =
     Inr (Content (JObject [(image_name, JObject [(py ''caption'', JString cap), (py ''description'', JString desc)])]))
   \<and> (\<exists>data'. save_to_json image_name cap desc (Content (JObject data)) = Inr (Content (JObject data'))
        \<and> map_of data' image_name =
            Some (JObject [(py ''caption'', JString cap), (py ''description'', JString desc)])
        \<and> (\<forall>k. k \<noteq> image_name \<longrightarrow> map_of data' k = map_of data k)
        \<and> (image_name \<in> fst ` set data \<longrightarrow> map fst data' = map fst data)
        \<and> (image_name \<notin> fst ` set data \<longrightarrow> map fst data' = map fst data @ [image_name]))"
proof -
  have keys: "map fst (dict_set data k v) = (if k \<in> fst ` set data then map fst data else map fst data @ [k])"
    for data :: "(pystr \<times> json) list" and k v
    by (induction data k v rule: dict_set.induct) auto
  show ?thesis
    by (simp add: entry_def map_of_dict_set keys)
qed

theorem save_to_json_merges_one_key_witness:
  "save_to_json (py ''b.jpg'') (py ''new'') (py ''newer'')
     (Content (JObject [(py ''a.jpg'', JNull), (py ''b.jpg'', entry (py ''old'') (py ''older''))])) =
   Inr (Content (JObject [(py ''a.jpg'', JNull), (py ''b.jpg'', entry (py ''new'') (py ''newer''))]))"
  using save_to_json_merges_one_key [of "py ''b.jpg''" "py ''new''" "py ''newer''"
    "[(py ''a.jpg'', JNull), (py ''b.jpg'', entry (py ''old'') (py ''older''))]"]
  by (simp add: entry_def py_def)

section \<open>Exceptions in the pipeline\<close>

text \<open>
  Claim C3, as the code has it. When the text-generation call raises,
  \<open>expand_caption_to_story\<close> returns the text "Gemini expansion failed:" with the message
  of the exception. For an image file that exists and opens: when the captioning call raises,
  \<open>process_single_image\<close> returns \<open>None\<close>; when the captioning call returns and the
  text-generation call raises, it returns a result with the error text as description if the
  image viewer does not raise and \<open>save_to_json\<close> succeeds, and \<open>None\<close> if the viewer
  raises or \<open>save_to_json\<close> raises. The generator bound to the pipeline never raises.
\<close>

theorem generation_swallows_exceptions:
  assumes "fsys img_path = Some bytes" and "image_open m bytes = Inr img"
  shows "(generate_content m (story_prompt cap n) = Inl msg \<longrightarrow>
            expand_caption_to_story m cap n = [10060] @ py '' Gemini expansion failed: '' @ msg)
         \<and> (generate_caption m img = Inl e \<longrightarrow>
            process_single_image m img_path fsys cache = (None, cache))
         \<and> (generate_caption m img = Inr cap \<and> generate_content m (story_prompt cap 3) = Inl msg
              \<and> image_show m img = None \<and> save_to_json (os_path_basename img_path) cap
                   ([10060] @ py '' Gemini expansion failed: '' @ msg) cache = Inr cache' \<longrightarrow>
            process_single_image m img_path fsys cache =
                (Some (result_dict (PImage img) cap ([10060] @ py '' Gemini expansion failed: '' @ msg)), cache'))
         \<and> (generate_caption m img = Inr cap \<and> generate_content m (story_prompt cap 3) = Inl msg
              \<and> (image_show m img = Some e' \<or> save_to_json (os_path_basename img_path) cap
                   ([10060] @ py '' Gemini expansion failed: '' @ msg) cache = Inl e') \<longrightarrow>
            process_single_image m img_path fsys cache = (None, cache))
         \<and> pipeline_generator m img_path fsys cache =
             (Inr (fst (process_single_image m img_path fsys cache)),
              snd (process_single_image m img_path fsys cache))"
proof -
  have story: "expand_caption_to_story m cap n = [10060] @ py '' Gemini expansion failed: '' @ msg"
    if "generate_content m (story_prompt cap n) = Inl msg" for n
    using that by (simp add: expand_caption_to_story_def)
  have no_caption: "process_single_image m img_path fsys cache = (None, cache)"
    if "generate_caption m img = Inl e"
    using that assms by (simp add: process_single_image_def)
  have shown: "process_single_image m img_path fsys cache =
      (Some (result_dict (PImage img) cap ([10060] @ py '' Gemini expansion failed: '' @ msg)), cache')"
    if "generate_caption m img = Inr cap" "generate_content m (story_prompt cap 3) = Inl msg"
      "image_show m img = None"
      "save_to_json (os_path_basename img_path) cap
         ([10060] @ py '' Gemini expansion failed: '' @ msg) cache = Inr cache'"
    using that assms story[OF that(2)] by (simp add: process_single_image_def Let_def)
  have lost: "process_single_image m img_path fsys cache = (None, cache)"
    if "generate_caption m img = Inr cap" "generate_content m (story_prompt cap 3) = Inl msg"
      "image_show m img = Some e' \<or> save_to_json (os_path_basename img_path) cap
         ([10060] @ py '' Gemini expansion failed: '' @ msg) cache = Inl e'"
    using that assms story[OF that(2)]
    by (auto simp add: process_single_image_def Let_def split: option.splits)
  show ?thesis
    using story no_caption shown lost by (simp add: pipeline_generator_def)
qed

theorem generation_swallows_exceptions_witness:
  "process_single_image blip_down photo [photo \<mapsto> [255, 216, 255]] Missing = (None, Missing)
   \<and> process_single_image gemini_down photo [photo \<mapsto> [255, 216, 255]] Missing =
       (Some [(py ''image'', PImage (Image [255, 216, 255] (py ''<PIL.Image.Image>''))),
              (py ''caption'', PStr (py ''a clay bowl'')),
              (py ''description'', PStr ([10060] @ py '' Gemini expansion failed: 429 quota exceeded''))],
        Content (JObject [(py ''photo.jpg'',
          entry (py ''a clay bowl'') ([10060] @ py '' Gemini expansion failed: 429 quota exceeded''))]))
   \<and> process_single_image gemini_down photo [photo \<mapsto> [255, 216, 255]] Corrupt = (None, Corrupt)
   \<and> process_single_image gemini_down photo [photo \<mapsto> [255, 216, 255]] No_folder = (None, No_folder)
   \<and> fst (pipeline_generator gemini_down photo [photo \<mapsto> [255, 216, 255]] No_folder) = Inr None"
  using generation_swallows_exceptions [of "[photo \<mapsto> [255, 216, 255]]" photo "[255, 216, 255]" blip_down
      "Image [255, 216, 255] (py ''<PIL.Image.Image>'')" _ _ _ "Raised (py ''CUDA out of memory'')" Missing]
    generation_swallows_exceptions [of "[photo \<mapsto> [255, 216, 255]]" photo "[255, 216, 255]" gemini_down
      "Image [255, 216, 255] (py ''<PIL.Image.Image>'')" "py ''a clay bowl''" 3
      "py ''429 quota exceeded''" _ Missing
      "Content (JObject [(py ''photo.jpg'',
          entry (py ''a clay bowl'') ([10060] @ py '' Gemini expansion failed: 429 quota exceeded''))])"]
    generation_swallows_exceptions [of "[photo \<mapsto> [255, 216, 255]]" photo "[255, 216, 255]" gemini_down
      "Image [255, 216, 255] (py ''<PIL.Image.Image>'')" "py ''a clay bowl''" 3
      "py ''429 quota exceeded''" _ Corrupt _ JSONDecodeError]
    generation_swallows_exceptions [of "[photo \<mapsto> [255, 216, 255]]" photo "[255, 216, 255]" gemini_down
      "Image [255, 216, 255] (py ''<PIL.Image.Image>'')" "py ''a clay bowl''" 3
      "py ''429 quota exceeded''" _ No_folder _ "FileNotFoundError CAPTIONS_FILE"]
  by (simp add: blip_down_def gemini_down_def photo_def os_path_basename_def rfind_def result_dict_def py_def)

text \<open>
  Claim C3 as it is written fails: the text-generation call raises, and the generator returns
  a result, the error text as its description.
\<close>

theorem text_generation_failure_counterexample:
  "generate_content gemini_down (story_prompt (py ''a clay bowl'') 3) = Inl (py ''429 quota exceeded'')
   \<and> fst (pipeline_generator gemini_down photo [photo \<mapsto> [255, 216, 255]] Missing) =
       Inr (Some [(py ''image'', PImage (Image [255, 216, 255] (py ''<PIL.Image.Image>''))),
                  (py ''caption'', PStr (py ''a clay bowl'')),
                  (py ''description'', PStr ([10060] @ py '' Gemini expansion failed: 429 quota exceeded''))])
   \<and> description_entry (generate_preview (cfg0\<lparr>blip := pipeline_generator gemini_down\<rparr>) alice_dashboard) =
       [10060] @ py '' Gemini expansion failed: 429 quota exceeded''
   \<and> dialogs (generate_preview (cfg0\<lparr>blip := pipeline_generator gemini_down\<rparr>) alice_dashboard) =
       dialogs alice_dashboard"
  using alice_dashboard_state
  by (simp add: generate_preview_def dict_get_def py_or_def save_to_json.simps entry_def
        pipeline_generator_def process_single_image_def expand_caption_to_story_def
        gemini_down_def photo_def os_path_basename_def rfind_def result_dict_def py_def Let_def)

section \<open>Stored paths\<close>

lemma drop_after_rfind:
  assumes "rfind c p < i"
  shows "c \<notin> set (drop (nat i) p)"
proof (cases "c \<in> set p")
  case False
  then show ?thesis by (meson in_set_dropD)
next
  case True
  let ?k = "length (takeWhile (\<lambda>x. x \<noteq> c) (rev p))"
  have k: "?k \<le> length p" by (metis length_rev length_takeWhile_le)
  have "drop (length p - ?k) p = rev (take ?k (rev p))"
    by (simp add: rev_take)
  also have "take ?k (rev p) = takeWhile (\<lambda>x. x \<noteq> c) (rev p)"
    by (metis takeWhile_eq_take)
  finally have tail: "c \<notin> set (drop (length p - ?k) p)"
    by (auto dest: set_takeWhileD)
  have "length p - ?k \<le> nat i"
    using assms True k by (simp add: rfind_def)
  then have "set (drop (nat i) p) \<subseteq> set (drop (length p - ?k) p)"
    by (rule set_drop_subset_set_drop)
  with tail show ?thesis by blast
qed

lemma splitext_no_sep: "47 \<notin> set (snd (os_path_splitext p))"
  by (simp add: os_path_splitext_def Let_def drop_after_rfind)

lemma set_strip: "set (strip t) \<subseteq> set t"
proof -
  have "x \<in> set t" if "x \<in> set (dropWhile P (rev (dropWhile P t)))" for P :: "nat \<Rightarrow> bool" and x
  proof -
    from that have "x \<in> set (rev (dropWhile P t))" by (rule set_dropWhileD)
    then have "x \<in> set (dropWhile P t)" by simp
    then show ?thesis by (rule set_dropWhileD)
  qed
  then show ?thesis by (auto simp add: strip_def)
qed

lemma digits_range: "set (digits n) \<subseteq> {48..57}"
proof (induction n rule: digits.induct)
  case (1 n)
  show ?case
  proof (cases "n < 10")
    case True
    then show ?thesis by (subst digits.simps) simp
  next
    case False
    have "n mod 10 < 10" by simp
    then have "48 + n mod 10 \<in> {48..57}" by auto
    then show ?thesis
      using 1 False by (subst digits.simps) simp
  qed
qed

lemma str_int_no_sep: "47 \<notin> set (str_int i)"
proof -
  have "47 \<notin> set (digits n)" for n
    using digits_range[of n] by auto
  then show ?thesis by (simp add: str_int_def)
qed

lemma inside_join:
  assumes "name \<noteq> []" and "47 \<notin> set name"
  shows "inside_folder folder (os_path_join folder name)"
proof -
  have "hd name \<noteq> 47" using assms by (metis hd_in_set)
  then show ?thesis
    using assms by (auto simp add: inside_folder_def os_path_join_def Let_def)
qed

lemma save_image_to_project_stored:
  assumes "save_image_to_project cfg ts src uname fsys = Inr (dest, fsys')"
  shows "inside_folder (IMAGE_FOLDER cfg) dest \<and> dest \<noteq> src
         \<and> fsys src \<noteq> None \<and> fsys' = fsys(dest := fsys src)"
proof -
  let ?ext = "if snd (os_path_splitext src) = [] then py ''.jpg'' else snd (os_path_splitext src)"
  let ?joined = "strip (filter (\<lambda>c. py_isalnum (ucd_alnum cfg) c \<or> c = 95 \<or> c = 45) uname)"
  let ?safe = "if ?joined = [] then py ''user'' else ?joined"
  let ?name = "?safe @ py ''_'' @ str_int ts @ ?ext"
  have ext: "47 \<notin> set ?ext"
    using splitext_no_sep[of src] by (simp add: py_def)
  have "47 \<notin> set (filter (\<lambda>c. py_isalnum (ucd_alnum cfg) c \<or> c = 95 \<or> c = 45) uname)"
    by (simp add: py_isalnum_def)
  then have "47 \<notin> set ?joined" using set_strip by blast
  then have safe: "47 \<notin> set ?safe" by (simp add: py_def)
  have name: "47 \<notin> set ?name" "?name \<noteq> []"
    using ext safe str_int_no_sep[of ts] by (simp_all add: py_def)
  have copied: "copy2 src (os_path_join (IMAGE_FOLDER cfg) ?name) fsys = Inr fsys'"
    and dest: "dest = os_path_join (IMAGE_FOLDER cfg) ?name"
    using assms by (auto simp add: save_image_to_project_def Let_def split: sum.splits)
  have "inside_folder (IMAGE_FOLDER cfg) dest"
    unfolding dest using name by (intro inside_join)
  moreover have "dest \<noteq> src \<and> fsys src \<noteq> None \<and> fsys' = fsys(dest := fsys src)"
    using copied unfolding dest[symmetric]
    by (auto simp add: copy2_def split: option.splits if_splits)
  ultimately show ?thesis by simp
qed

section \<open>The upload records of a run\<close>

text \<open>What each handler leaves alone.\<close>

lemma generate_preview_keeps:
  "selected_image_path (generate_preview cfg s) = selected_image_path s"
  "db (generate_preview cfg s) = db s"
  by (auto simp add: generate_preview_def no_image_def generate_failed_def messagebox_def Let_def
        split: option.splits sum.splits)

lemma do_login_selected:
  "selected_image_path (do_login u p s) = None \<or> selected_image_path (do_login u p s) = selected_image_path s"
  by (auto simp add: do_login_def auth_failed_def messagebox_def show_dashboard_def Let_def
        split: option.splits)

lemma do_login_uploads: "uploads_collection (db (do_login u p s)) = uploads_collection (db s)"
  by (auto simp add: do_login_def auth_failed_def messagebox_def show_dashboard_def Let_def
        split: option.splits)

lemma do_create_keeps:
  "selected_image_path (do_create now u m p c s) = selected_image_path s"
  "uploads_collection (db (do_create now u m p c s)) = uploads_collection (db s)"
  by (auto simp add: do_create_def messagebox_def show_login_screen_def insert_user_def Let_def)

lemma select_image_effect:
  "uploads_collection (db (select_image cfg ts path s)) = uploads_collection (db s)"
  "selected_image_path (select_image cfg ts path s) = selected_image_path s
   \<or> (\<exists>user stored. path \<noteq> [] \<and> current_user s = Some user
         \<and> save_image_to_project cfg ts path (username user) (files s) = Inr stored
         \<and> selected_image_path (select_image cfg ts path s) = Some (fst stored))"
  by (auto simp add: select_image_def messagebox_def split: option.splits sum.splits)

lemma save_to_db_effect:
  "selected_image_path (save_to_db now s) = selected_image_path s"
  "uploads_collection (db (save_to_db now s)) = uploads_collection (db s)
   \<or> (\<exists>doc. uploads_collection (db (save_to_db now s)) = uploads_collection (db s) @ [doc]
         \<and> selected_image_path s = Some (image_path doc))"
  by (auto simp add: save_to_db_def no_image_def messagebox_def save_upload_record_def
        new_upload_doc_def Let_def split: option.splits)

lemma intake_of_Select:
  assumes "screen s = Dashboard_screen" and "path \<noteq> []" and "current_user s = Some user"
    and "save_image_to_project cfg ts path (username user) (files s) = Inr stored"
  shows "intake_of cfg s (Select ts path) = [(path, fst stored)]"
  using assms by (simp add: intake_of.simps)

lemma intake_of_cases:
  "intake_of cfg s ev = []
   \<or> (\<exists>ts path user stored. ev = Select ts path \<and> current_user s = Some user
         \<and> save_image_to_project cfg ts path (username user) (files s) = Inr stored
         \<and> intake_of cfg s ev = [(path, fst stored)])"
proof (cases ev)
  case (Select ts path)
  show ?thesis
  proof (cases "current_user s")
    case None
    with Select show ?thesis by (simp add: intake_of.simps)
  next
    case (Some user)
    show ?thesis
    proof (cases "save_image_to_project cfg ts path (username user) (files s)")
      case (Inl e)
      with Select Some show ?thesis by (simp add: intake_of.simps)
    next
      case (Inr stored)
      with Select Some show ?thesis by (cases stored) (auto simp add: intake_of.simps)
    qed
  qed
qed (simp_all add: intake_of.simps)

lemma step_invariant:
  assumes sel: "\<forall>p. selected_image_path s = Some p \<longrightarrow> p \<in> P"
    and ups: "\<forall>doc\<in>set (drop n (uploads_collection (db s))). image_path doc \<in> P"
    and n: "n \<le> length (uploads_collection (db s))"
  shows "(\<forall>p. selected_image_path (step cfg s ev) = Some p \<longrightarrow> p \<in> P \<union> snd ` set (intake_of cfg s ev))
         \<and> (\<forall>doc\<in>set (drop n (uploads_collection (db (step cfg s ev)))).
               image_path doc \<in> P \<union> snd ` set (intake_of cfg s ev))
         \<and> n \<le> length (uploads_collection (db (step cfg s ev)))"
proof (cases ev)
  case (Login u p)
  then show ?thesis
    using assms do_login_selected[of u p s] by (auto simp add: do_login_uploads)
next
  case Go_signup
  then show ?thesis using assms by (auto simp add: show_signup_screen_def)
next
  case (Create now u m p c)
  then show ?thesis using assms by (auto simp add: do_create_keeps)
next
  case Back
  then show ?thesis using assms by (auto simp add: show_login_screen_def)
next
  case (Select ts path)
  show ?thesis
  proof (cases "screen s = Dashboard_screen")
    case False
    with Select assms show ?thesis by auto
  next
    case True
    have "\<forall>p. selected_image_path (select_image cfg ts path s) = Some p
              \<longrightarrow> p \<in> P \<union> snd ` set (intake_of cfg s (Select ts path))"
    proof (intro allI impI)
      fix p
      assume a: "selected_image_path (select_image cfg ts path s) = Some p"
      from select_image_effect(2)[of cfg ts path s]
      show "p \<in> P \<union> snd ` set (intake_of cfg s (Select ts path))"
      proof (elim disjE exE conjE)
        assume "selected_image_path (select_image cfg ts path s) = selected_image_path s"
        with a have "selected_image_path s = Some p" by simp
        with sel have "p \<in> P" by blast
        then show ?thesis by (rule UnI1)
      next
        fix user stored
        assume "path \<noteq> []" "current_user s = Some user"
          "save_image_to_project cfg ts path (username user) (files s) = Inr stored"
          "selected_image_path (select_image cfg ts path s) = Some (fst stored)"
        then show ?thesis
          using intake_of_Select[OF True, of path user cfg ts stored] a by simp
      qed
    qed
    then show ?thesis
      using Select True ups n by (simp add: select_image_effect(1))
  qed
next
  case (Type_caption t)
  then show ?thesis using assms by auto
next
  case (Type_description t)
  then show ?thesis using assms by auto
next
  case Generate
  then show ?thesis using assms by (auto simp add: generate_preview_keeps)
next
  case (Save now)
  show ?thesis
  proof (cases "screen s = Dashboard_screen")
    case False
    with Save assms show ?thesis by auto
  next
    case True
    from save_to_db_effect(2)[of now s]
    have "(\<forall>doc\<in>set (drop n (uploads_collection (db (save_to_db now s)))). image_path doc \<in> P)
          \<and> n \<le> length (uploads_collection (db (save_to_db now s)))"
      using sel ups n by auto
    then show ?thesis
      using Save True sel by (simp add: save_to_db_effect(1))
  qed
next
  case (Logout confirm)
  then show ?thesis using assms by (auto simp add: logout_def show_login_screen_def)
qed

lemma run_invariant:
  assumes "\<forall>p. selected_image_path s = Some p \<longrightarrow> p \<in> P"
    and "\<forall>doc\<in>set (drop n (uploads_collection (db s))). image_path doc \<in> P"
    and "n \<le> length (uploads_collection (db s))"
  shows "(\<forall>p. selected_image_path (run cfg s evs) = Some p \<longrightarrow> p \<in> P \<union> snd ` set (intakes cfg s evs))
         \<and> (\<forall>doc\<in>set (drop n (uploads_collection (db (run cfg s evs)))).
               image_path doc \<in> P \<union> snd ` set (intakes cfg s evs))"
  using assms
proof (induction evs arbitrary: s P)
  case Nil
  then show ?case by (simp add: run_def)
next
  case (Cons ev evs)
  have st: "(\<forall>p. selected_image_path (step cfg s ev) = Some p \<longrightarrow> p \<in> P \<union> snd ` set (intake_of cfg s ev))
         \<and> (\<forall>doc\<in>set (drop n (uploads_collection (db (step cfg s ev)))).
               image_path doc \<in> P \<union> snd ` set (intake_of cfg s ev))
         \<and> n \<le> length (uploads_collection (db (step cfg s ev)))"
    using Cons.prems by (intro step_invariant) auto
  have "(\<forall>p. selected_image_path (run cfg (step cfg s ev) evs) = Some p
            \<longrightarrow> p \<in> (P \<union> snd ` set (intake_of cfg s ev)) \<union> snd ` set (intakes cfg (step cfg s ev) evs))
         \<and> (\<forall>doc\<in>set (drop n (uploads_collection (db (run cfg (step cfg s ev) evs)))).
               image_path doc \<in> (P \<union> snd ` set (intake_of cfg s ev)) \<union> snd ` set (intakes cfg (step cfg s ev) evs))"
    using st by (intro Cons.IH) auto
  then show ?case
    by (simp add: run_def Un_assoc image_Un)
qed

lemma intakes_stored:
  "\<forall>(src, dest)\<in>set (intakes cfg s evs). inside_folder (IMAGE_FOLDER cfg) dest \<and> dest \<noteq> src"
proof (induction evs arbitrary: s)
  case Nil
  show ?case by simp
next
  case (Cons ev evs)
  have "\<forall>(src, dest)\<in>set (intake_of cfg s ev). inside_folder (IMAGE_FOLDER cfg) dest \<and> dest \<noteq> src"
    using intake_of_cases[of cfg s ev]
  proof
    assume "intake_of cfg s ev = []"
    then show ?thesis by simp
  next
    assume "\<exists>ts path user stored. ev = Select ts path \<and> current_user s = Some user
         \<and> save_image_to_project cfg ts path (username user) (files s) = Inr stored
         \<and> intake_of cfg s ev = [(path, fst stored)]"
    then obtain ts path user stored where "current_user s = Some user"
        and st: "save_image_to_project cfg ts path (username user) (files s) = Inr stored"
        and io: "intake_of cfg s ev = [(path, fst stored)]"
      by blast
    from st have "save_image_to_project cfg ts path (username user) (files s) = Inr (fst stored, snd stored)"
      by simp
    from save_image_to_project_stored[OF this] io show ?thesis by simp
  qed
  with Cons.IH[of "step cfg s ev"] show ?case by auto
qed

text \<open>
  Claim C5. A selection that succeeds stores the path \<open>save_image_to_project\<close> returns,
  which lies in the image folder and is not the path the user chose. From the start of the
  program, over any sequence of user actions, every selection in the history has this
  property, and every upload record added has as its image path a stored path of the history.
\<close>

theorem stored_path_is_owned_copy:
  "(current_user s = Some user \<and> path \<noteq> []
      \<and> save_image_to_project cfg ts path (username user) (files s) = Inr (dest, fsys') \<longrightarrow>
      selected_image_path (select_image cfg ts path s) = Some dest
      \<and> inside_folder (IMAGE_FOLDER cfg) dest \<and> dest \<noteq> path)
   \<and> (\<forall>(src, stored)\<in>set (intakes cfg (init now d fsys cache) evs).
         inside_folder (IMAGE_FOLDER cfg) stored \<and> stored \<noteq> src)
   \<and> (\<forall>doc\<in>set (drop (length (uploads_collection d))
                       (uploads_collection (db (run cfg (init now d fsys cache) evs)))).
         image_path doc \<in> snd ` set (intakes cfg (init now d fsys cache) evs))"
proof -
  have one: "selected_image_path (select_image cfg ts path s) = Some dest
      \<and> inside_folder (IMAGE_FOLDER cfg) dest \<and> dest \<noteq> path"
    if "current_user s = Some user" "path \<noteq> []"
      "save_image_to_project cfg ts path (username user) (files s) = Inr (dest, fsys')"
    using that save_image_to_project_stored[OF that(3)] by (simp add: select_image_def)
  have start: "uploads_collection (db (init now d fsys cache)) = uploads_collection d"
    "selected_image_path (init now d fsys cache) = None"
    by (simp_all add: init_def create_admin_if_not_exists_def insert_user_def)
  have "\<forall>doc\<in>set (drop (length (uploads_collection d))
                       (uploads_collection (db (run cfg (init now d fsys cache) evs)))).
         image_path doc \<in> {} \<union> snd ` set (intakes cfg (init now d fsys cache) evs)"
    using run_invariant[of "init now d fsys cache" "{}" "length (uploads_collection d)" cfg evs] start
    by simp
  then show ?thesis
    using one intakes_stored[of cfg "init now d fsys cache" evs] by simp
qed

theorem stored_path_is_owned_copy_witness:
  "intakes cfg0 app0 session0 = [(photo, py ''artisan_images/alice_1700000000000.jpg'')]
   \<and> map image_path (uploads_collection (db (run cfg0 app0 session0))) =
       [py ''artisan_images/alice_1700000000000.jpg'']
   \<and> inside_folder (py ''artisan_images'') (py ''artisan_images/alice_1700000000000.jpg'')
   \<and> py ''artisan_images/alice_1700000000000.jpg'' \<noteq> photo"
proof -
  have hist: "intakes cfg0 app0 session0 = [(photo, py ''artisan_images/alice_1700000000000.jpg'')]"
    by (simp add: session0_def intake_of.simps show_signup_screen_def select_image_def
          generate_preview_def stub_generator_def
          eval_session eval_intake eval_string Let_def)
  have ran: "map image_path (uploads_collection (db (run cfg0 app0 session0))) =
       [py ''artisan_images/alice_1700000000000.jpg'']"
    by (simp add: session0_def run_def show_signup_screen_def select_image_def
          generate_preview_def stub_generator_def blip_process_single_image_def result_dict_def
          dict_get_def py_or_def save_to_db_def save_upload_record_def new_upload_doc_def text_get_def
          eval_session eval_intake eval_string Let_def)
  show ?thesis
    using stored_path_is_owned_copy [of _ _ "[]" cfg0 _ _ _ now0
        "\<lparr>users_collection = [], uploads_collection = []\<rparr>" "[photo \<mapsto> [255, 216, 255]]" Missing
        session0] hist ran
    by (simp add: app0_def cfg0_def)
qed

end
